theory Spec2Isabelle
  imports Complex_Main
begin

section \<open>Data model\<close>

text \<open>
  The tables the controllers read and write through the ORM client. Identifiers are
  the store's string ids. A price is a decimal of the store and is held exactly. The
  money a handler computes is a JavaScript number, an IEEE 754 double
  (\<^verbatim>\<open>Number(item.product.price) * item.quantity\<close>): the order's subtotal, tax,
  shipping and total and an order item's subtotal hold the number the handler passes
  to \<^verbatim>\<open>new Prisma.Decimal\<close>, as the exact value of that double. What the column's type
  does with it on write is declared in the store's schema, which is not among the
  sources. Quantities and stock counts are integers; the handlers and the queries put
  no lower bound on a stock count, so it is an \<open>int\<close> and a negative value is
  representable. The records have the fields the handlers read or write.
\<close>

type_synonym id = string
type_synonym money = rat

datatype Role = CUSTOMER | SELLER | ADMIN

text \<open>
  Modelled from the spec: the enumerations of the order status and of the payment
  status are declared in the store's schema, which is not among the sources. The
  controllers use the literals PENDING, CONFIRMED, CANCELLED, REFUNDED and PAID,
  FAILED, REFUNDED; the spec adds DELIVERED and UNPAID.
\<close>

datatype OrderStatus = PENDING | CONFIRMED | DELIVERED | CANCELLED | REFUNDED

datatype PaymentStatus = UNPAID | PAID | FAILED | PAYMENT_REFUNDED

record Product =
  p_name :: string
  p_price :: money
  p_stock :: int

record CartItem =
  ci_id :: id
  ci_cartId :: id
  ci_productId :: id
  ci_quantity :: int

record OrderItem =
  oi_orderId :: id
  oi_productId :: id
  oi_quantity :: int
  oi_price :: money
  oi_subtotal :: money

record Order =
  o_id :: id
  o_userId :: id
  o_addressId :: id
  o_orderNumber :: string
  o_paymentMethod :: string
  o_subtotal :: money
  o_tax :: money
  o_shipping :: money
  o_total :: money
  o_notes :: "string option"
  o_status :: OrderStatus
  o_paymentStatus :: PaymentStatus
  o_stripePaymentId :: "string option"

record Cart =
  c_id :: id
  c_userId :: id

text \<open>
  The store. \<open>products\<close> and \<open>addresses\<close> are only ever looked up by their primary
  key and are maps from it (an address maps to its owning user). Carts, cart items,
  orders and order items are rows in insertion order, searched as the queries do.
\<close>

record state =
  products :: "id \<rightharpoonup> Product"
  addresses :: "id \<rightharpoonup> id"
  carts :: "Cart list"
  cartItems :: "CartItem list"
  orders :: "Order list"
  orderItems :: "OrderItem list"

text \<open>
  The failures a handler reports, named by the spec's taxonomy. The handlers answer
  with an HTTP status and a message: 400 for a missing field (\<open>ValidationError\<close>),
  400 "Cart is empty", 404 "Address not found", 400 "Insufficient stock for NAME.
  Only N available.", 404 "... not found", 400 "Only pending orders can be
  cancelled" and 400 "Order is not paid" (\<open>InvalidTransition\<close>), 403 (\<open>Forbidden\<close>),
  400 "Order already paid", 400 "Only N items available" (\<open>OutOfStock\<close>),
  400 "Payment failed", and 500 from the \<^verbatim>\<open>catch\<close> block (\<open>Unavailable\<close>).
\<close>

datatype error =
    ValidationError
  | EmptyCart
  | AddressNotFound
  | InsufficientStock string int
  | NotFound
  | InvalidTransition
  | Forbidden
  | AlreadyPaid
  | OutOfStock int
  | PaymentFailed
  | Unavailable

text \<open>JavaScript's \<^verbatim>\<open>!x\<close> on an optional string: absent or empty.\<close>

definition falsy :: "string option \<Rightarrow> bool" where
  "falsy x = (case x of None \<Rightarrow> True | Some v \<Rightarrow> v = [])"

section \<open>JavaScript numbers\<close>

text \<open>
  A JavaScript number is a double: 53 significant bits, and the result of an
  operation is the exact result rounded to the nearest double, to the one with the
  even significand at a tie. A double is represented by its exact value, a rational.
  \<open>ndigits b n\<close> is the number of digits of \<open>n\<close> in base \<open>b\<close>, \<open>ilog b a\<close> the
  exponent of the largest power of \<open>b\<close> that is at most \<open>a\<close> (for a positive \<open>a\<close>),
  and \<open>rd x\<close> the double nearest to \<open>x\<close>. The exponent range of a double is not
  modelled (no overflow to infinity, no subnormal numbers): the prices, the 32-bit
  quantities and their sums in these handlers are far inside it.
\<close>

function ndigits :: "int \<Rightarrow> int \<Rightarrow> int" where
  "ndigits b n = (if n < b \<or> b < 2 then 1 else 1 + ndigits b (n div b))"
  by pat_completeness auto
termination
proof (relation "measure (\<lambda>(b, n). nat n)")
  show "wf (measure (\<lambda>(b, n). nat n))" by simp
next
  fix b n :: int
  assume "\<not> (n < b \<or> b < 2)"
  then have b: "2 \<le> b" and n: "b \<le> n" by simp_all
  then have "0 < n" by simp
  moreover from b this have "n div b < n" by (intro int_div_less_self) simp_all
  ultimately show "((b, n div b), (b, n)) \<in> measure (\<lambda>(b, n). nat n)"
    using b n by (simp add: pos_imp_zdiv_nonneg_iff)
qed

definition ipow :: "int \<Rightarrow> int \<Rightarrow> rat" where
  "ipow b e = (if 0 \<le> e then of_int b ^ nat e else 1 / of_int b ^ nat (- e))"

definition ilog :: "int \<Rightarrow> rat \<Rightarrow> int" where
  "ilog b a =
     (let k = ndigits b (fst (quotient_of a)) - ndigits b (snd (quotient_of a))
      in if ipow b k \<le> a then k else k - 1)"

definition round_even :: "rat \<Rightarrow> int" where
  "round_even y =
     (let f = \<lfloor>y\<rfloor>; r = y - of_int f
      in if r < 1 / 2 then f else if 1 / 2 < r then f + 1 else if even f then f else f + 1)"

definition rd :: "rat \<Rightarrow> rat" where
  "rd x =
     (if x = 0 then 0
      else
        (let e = ilog 2 \<bar>x\<bar> - 52
         in sgn x * of_int (round_even (\<bar>x\<bar> / ipow 2 e)) * ipow 2 e))"

text \<open>
  \<^verbatim>\<open>Number(d)\<close> of a decimal and a decimal literal such as \<^verbatim>\<open>0.1\<close>: the nearest
  double. \<^verbatim>\<open>a + b\<close> and \<^verbatim>\<open>a * b\<close> on numbers.
\<close>

definition js_number :: "rat \<Rightarrow> money" where
  "js_number d = rd d"

definition js_add :: "money \<Rightarrow> money \<Rightarrow> money" where
  "js_add a b = rd (a + b)"

definition js_mul :: "money \<Rightarrow> money \<Rightarrow> money" where
  "js_mul a b = rd (a * b)"

section \<open>Checkout: createOrder\<close>

record CreateOrderBody =
  cb_addressId :: "id option"
  cb_paymentMethod :: "string option"
  cb_notes :: "string option"

text \<open>\<^verbatim>\<open>prisma.cart.findUnique({ where: { userId } })\<close>.\<close>

definition cart_of_user :: "state \<Rightarrow> id \<Rightarrow> Cart option" where
  "cart_of_user s userId = find (\<lambda>c. c_userId c = userId) (carts s)"

text \<open>\<^verbatim>\<open>cart.items\<close>: the rows of the cart.\<close>

definition cart_items :: "state \<Rightarrow> id \<Rightarrow> CartItem list" where
  "cart_items s cid = filter (\<lambda>i. ci_cartId i = cid) (cartItems s)"

text \<open>
  \<^verbatim>\<open>include: { product: true }\<close>: every row comes with the product it references. The
  relation is required, so a row without its product makes the query throw.
\<close>

fun include_product :: "state \<Rightarrow> CartItem list \<Rightarrow> (CartItem \<times> Product) list option" where
  "include_product s [] = Some []"
| "include_product s (i # r) =
     (case products s (ci_productId i) of
        None \<Rightarrow> None
      | Some p \<Rightarrow>
         (case include_product s r of
            None \<Rightarrow> None
          | Some js \<Rightarrow> Some ((i, p) # js)))"

text \<open>The loop "Check stock availability": the first short line answers.\<close>

fun check_stock :: "(CartItem \<times> Product) list \<Rightarrow> error option" where
  "check_stock [] = None"
| "check_stock ((i, p) # r) =
     (if p_stock p < ci_quantity i
      then Some (InsufficientStock (p_name p) (p_stock p))
      else check_stock r)"

text \<open>
  The line subtotal \<^verbatim>\<open>Number(item.product.price) * item.quantity\<close>, and "Calculate
  totals": \<^verbatim>\<open>reduce\<close> from 0 over the rows, \<^verbatim>\<open>subtotal * 0.1\<close>,
  \<^verbatim>\<open>subtotal > 100 ? 0 : 10\<close> and \<^verbatim>\<open>subtotal + tax + shipping\<close>, which adds from the
  left. The quantity is an integer of the store, a number as it is.
\<close>

definition line_subtotal :: "CartItem \<Rightarrow> Product \<Rightarrow> money" where
  "line_subtotal i p = js_mul (js_number (p_price p)) (of_int (ci_quantity i))"

definition calc_subtotal :: "(CartItem \<times> Product) list \<Rightarrow> money" where
  "calc_subtotal items = foldl (\<lambda>sum (i, p). js_add sum (line_subtotal i p)) 0 items"

definition calc_tax :: "money \<Rightarrow> money" where
  "calc_tax subtotal = js_mul subtotal (js_number (1 / 10))"

definition calc_shipping :: "money \<Rightarrow> money" where
  "calc_shipping subtotal = (if subtotal > 100 then 0 else 10)"

definition calc_total :: "money \<Rightarrow> money" where
  "calc_total subtotal =
     js_add (js_add subtotal (calc_tax subtotal)) (calc_shipping subtotal)"

text \<open>
  Modelled from the spec: the column defaults of a new order's \<open>status\<close> and
  \<open>paymentStatus\<close>. \<^verbatim>\<open>tx.order.create\<close> sets neither field; the defaults are in the
  store's schema, which is not among the sources. The spec has a new order PENDING
  and UNPAID.
\<close>

definition default_status :: OrderStatus where
  "default_status = PENDING"

definition default_paymentStatus :: PaymentStatus where
  "default_paymentStatus = UNPAID"

text \<open>
  What the handler has read when it opens the transaction: the address id, the cart's
  id and the cart's rows with their products as they were at the read.
\<close>

record Checked =
  ck_addressId :: id
  ck_cartId :: id
  ck_items :: "(CartItem \<times> Product) list"

text \<open>
  Everything \<^verbatim>\<open>createOrder\<close> does before \<^verbatim>\<open>prisma.$transaction\<close>: the checks, in the
  order of the source. Nothing is written.
\<close>

definition createOrder_checks :: "state \<Rightarrow> id \<Rightarrow> CreateOrderBody \<Rightarrow> error + Checked" where
  "createOrder_checks s userId body =
     (if falsy (cb_addressId body) then Inl ValidationError
      else
        (case cart_of_user s userId of
           None \<Rightarrow> Inl EmptyCart
         | Some cart \<Rightarrow>
            (case include_product s (cart_items s (c_id cart)) of
               None \<Rightarrow> Inl Unavailable
             | Some items \<Rightarrow>
                if length items = 0 then Inl EmptyCart
                else if addresses s (the (cb_addressId body)) \<noteq> Some userId then Inl AddressNotFound
                else
                  (case check_stock items of
                     Some e \<Rightarrow> Inl e
                   | None \<Rightarrow>
                      Inr \<lparr>ck_addressId = the (cb_addressId body), ck_cartId = c_id cart,
                           ck_items = items\<rparr>))))"

text \<open>
  The loop of the transaction: one order item per cart row, with the price read
  before the transaction and the line subtotal computed from it, and an
  unconditional decrement of the product's stock as
  it is in the store now. Updating a product that does not exist throws.
\<close>

fun place_items :: "id \<Rightarrow> (CartItem \<times> Product) list \<Rightarrow> state \<Rightarrow> state option" where
  "place_items oid [] s = Some s"
| "place_items oid ((i, p) # r) s =
     (case products s (ci_productId i) of
        None \<Rightarrow> None
      | Some q \<Rightarrow>
          place_items oid r
            (s\<lparr>orderItems := orderItems s @
                  [\<lparr>oi_orderId = oid, oi_productId = ci_productId i,
                    oi_quantity = ci_quantity i, oi_price = p_price p,
                    oi_subtotal = line_subtotal i p\<rparr>],
               products := (products s)(ci_productId i \<mapsto>
                  q\<lparr>p_stock := p_stock q - ci_quantity i\<rparr>)\<rparr>))"

text \<open>
  The order \<^verbatim>\<open>tx.order.create\<close> writes, with the totals computed before the
  transaction, and the body of the transaction, on the store as it is when the
  transaction runs. \<open>newId\<close> is the id the store gives the order and \<open>orderNumber\<close>
  the result of \<^verbatim>\<open>generateOrderNumber()\<close> (clock and random generator). \<open>None\<close> is a
  throw: an id that is already taken, or a missing product.
\<close>

definition new_order :: "id \<Rightarrow> CreateOrderBody \<Rightarrow> Checked \<Rightarrow> id \<Rightarrow> string \<Rightarrow> Order" where
  "new_order userId body ck newId orderNumber =
     (let subtotal = calc_subtotal (ck_items ck)
      in \<lparr>o_id = newId, o_userId = userId, o_addressId = ck_addressId ck,
          o_orderNumber = orderNumber,
          o_paymentMethod =
            (if falsy (cb_paymentMethod body) then ''pending''
             else the (cb_paymentMethod body)),
          o_subtotal = subtotal, o_tax = calc_tax subtotal,
          o_shipping = calc_shipping subtotal, o_total = calc_total subtotal,
          o_notes = cb_notes body,
          o_status = default_status,
          o_paymentStatus = default_paymentStatus,
          o_stripePaymentId = None\<rparr>)"

definition createOrder_tx ::
  "state \<Rightarrow> id \<Rightarrow> CreateOrderBody \<Rightarrow> Checked \<Rightarrow> id \<Rightarrow> string \<Rightarrow> state option" where
  "createOrder_tx s userId body ck newId orderNumber =
     (if newId \<in> set (map o_id (orders s)) then None
      else
        (case place_items newId (ck_items ck)
                (s\<lparr>orders := orders s @ [new_order userId body ck newId orderNumber]\<rparr>) of
           None \<Rightarrow> None
         | Some s1 \<Rightarrow>
             Some (s1\<lparr>cartItems :=
                    filter (\<lambda>i. ci_cartId i \<noteq> ck_cartId ck) (cartItems s1)\<rparr>)))"

text \<open>
  A transaction either commits the state its body reaches or, when the body throws,
  leaves the store as it was; the handler's \<^verbatim>\<open>catch\<close> then answers 500.
\<close>

definition transaction :: "state \<Rightarrow> (state \<Rightarrow> state option) \<Rightarrow> 'a \<Rightarrow> (error + 'a) \<times> state" where
  "transaction s body ok =
     (case body s of None \<Rightarrow> (Inl Unavailable, s) | Some s' \<Rightarrow> (Inr ok, s'))"

text \<open>\<^verbatim>\<open>order.items\<close>: the items of an order.\<close>

definition order_items :: "state \<Rightarrow> id \<Rightarrow> OrderItem list" where
  "order_items s oid = filter (\<lambda>it. oi_orderId it = oid) (orderItems s)"

text \<open>
  "Get complete order with relations": after the transaction the order is read again
  with its address and its items, each item with its product. These relations are
  required, so a missing address or product throws (\<open>None\<close>); an order that is not
  found is \<^verbatim>\<open>null\<close> (\<open>Some None\<close>).
\<close>

definition complete_order :: "state \<Rightarrow> id \<Rightarrow> Order option option" where
  "complete_order s oid =
     (case find (\<lambda>x. o_id x = oid) (orders s) of
        None \<Rightarrow> Some None
      | Some order \<Rightarrow>
          if addresses s (o_addressId order) = None then None
          else if list_ex (\<lambda>it. products s (oi_productId it) = None) (order_items s oid)
          then None
          else Some (Some order))"

text \<open>
  What \<^verbatim>\<open>createOrder\<close> does once its checks have passed, on the store as it is then:
  the transaction, and the read of the complete order for the answer. A throw of that
  read comes after the transaction has committed.
\<close>

definition createOrder_commit ::
  "state \<Rightarrow> id \<Rightarrow> CreateOrderBody \<Rightarrow> Checked \<Rightarrow> id \<Rightarrow> string \<Rightarrow> (error + Order option) \<times> state" where
  "createOrder_commit s userId body ck newId orderNumber =
     (case transaction s (\<lambda>t. createOrder_tx t userId body ck newId orderNumber) () of
        (Inl e, s') \<Rightarrow> (Inl e, s')
      | (Inr _, s') \<Rightarrow>
          (case complete_order s' newId of
             None \<Rightarrow> (Inl Unavailable, s')
           | Some r \<Rightarrow> (Inr r, s')))"

text \<open>
  The handler run without interruption: the checks, then the transaction and the
  closing read on the same store.
\<close>

definition createOrder ::
  "state \<Rightarrow> id \<Rightarrow> CreateOrderBody \<Rightarrow> id \<Rightarrow> string \<Rightarrow> (error + Order option) \<times> state" where
  "createOrder s userId body newId orderNumber =
     (case createOrder_checks s userId body of
        Inl e \<Rightarrow> (Inl e, s)
      | Inr ck \<Rightarrow> createOrder_commit s userId body ck newId orderNumber)"

section \<open>Order lifecycle: cancel, payment, refund\<close>

text \<open>
  The loop "Restore stock": an increment of each item's product. Updating a product
  that does not exist throws.
\<close>

fun restore_stock :: "OrderItem list \<Rightarrow> state \<Rightarrow> state option" where
  "restore_stock [] s = Some s"
| "restore_stock (it # r) s =
     (case products s (oi_productId it) of
        None \<Rightarrow> None
      | Some q \<Rightarrow>
          restore_stock r
            (s\<lparr>products := (products s)(oi_productId it \<mapsto>
                  q\<lparr>p_stock := p_stock q + oi_quantity it\<rparr>)\<rparr>))"

text \<open>\<^verbatim>\<open>order.update({ where: { id }, data })\<close>: the row with that id is changed.\<close>

definition update_order :: "id \<Rightarrow> (Order \<Rightarrow> Order) \<Rightarrow> state \<Rightarrow> state" where
  "update_order oid f s = s\<lparr>orders := map (\<lambda>x. if o_id x = oid then f x else x) (orders s)\<rparr>"

definition cancelOrder :: "state \<Rightarrow> id \<Rightarrow> id \<Rightarrow> (error + unit) \<times> state" where
  "cancelOrder s userId oid =
     (case find (\<lambda>x. o_id x = oid \<and> o_userId x = userId) (orders s) of
        None \<Rightarrow> (Inl NotFound, s)
      | Some order \<Rightarrow>
          if o_status order \<noteq> PENDING then (Inl InvalidTransition, s)
          else
            transaction s
              (\<lambda>t. case restore_stock (order_items s oid) t of
                      None \<Rightarrow> None
                    | Some t1 \<Rightarrow> Some (update_order oid (\<lambda>x. x\<lparr>o_status := CANCELLED\<rparr>) t1))
              ())"

text \<open>
  \<open>intentId\<close> is the mock intent's id, made from the clock and the random generator.
\<close>

definition createPaymentIntent ::
  "state \<Rightarrow> id \<Rightarrow> id option \<Rightarrow> string \<Rightarrow> (error + string) \<times> state" where
  "createPaymentIntent s userId orderId intentId =
     (if falsy orderId then (Inl ValidationError, s)
      else
        (case find (\<lambda>x. o_id x = the orderId \<and> o_userId x = userId) (orders s) of
           None \<Rightarrow> (Inl NotFound, s)
         | Some order \<Rightarrow>
             if o_paymentStatus order = PAID then (Inl AlreadyPaid, s)
             else (Inr intentId,
                   update_order (the orderId) (\<lambda>x. x\<lparr>o_stripePaymentId := Some intentId\<rparr>) s)))"

text \<open>
  \<open>isSuccessful\<close> is the outcome of the mock payment (\<^verbatim>\<open>Math.random() > 0.1\<close>). On
  failure the handler writes FAILED and answers 400.
\<close>

definition confirmPayment ::
  "state \<Rightarrow> id \<Rightarrow> string option \<Rightarrow> bool \<Rightarrow> (error + id) \<times> state" where
  "confirmPayment s userId paymentIntentId isSuccessful =
     (if falsy paymentIntentId then (Inl ValidationError, s)
      else
        (case find (\<lambda>x. o_stripePaymentId x = paymentIntentId \<and> o_userId x = userId)
                (orders s) of
           None \<Rightarrow> (Inl NotFound, s)
         | Some order \<Rightarrow>
             if isSuccessful
             then (Inr (o_id order),
                   update_order (o_id order)
                     (\<lambda>x. x\<lparr>o_paymentStatus := PAID, o_status := CONFIRMED\<rparr>) s)
             else (Inl PaymentFailed,
                   update_order (o_id order) (\<lambda>x. x\<lparr>o_paymentStatus := FAILED\<rparr>) s)))"

text \<open>
  \<^verbatim>\<open>refundPayment\<close>. The order items are read inside the transaction. An absent
  \<open>orderId\<close> makes \<^verbatim>\<open>findUnique\<close> throw.
\<close>

definition refundPayment :: "state \<Rightarrow> Role \<Rightarrow> id option \<Rightarrow> (error + unit) \<times> state" where
  "refundPayment s userRole orderId =
     (if userRole \<noteq> ADMIN then (Inl Forbidden, s)
      else
        (case orderId of
           None \<Rightarrow> (Inl Unavailable, s)
         | Some oid \<Rightarrow>
            (case find (\<lambda>x. o_id x = oid) (orders s) of
               None \<Rightarrow> (Inl NotFound, s)
             | Some order \<Rightarrow>
                 if o_paymentStatus order \<noteq> PAID then (Inl InvalidTransition, s)
                 else
                   transaction s
                     (\<lambda>t. case restore_stock (order_items t oid) t of
                             None \<Rightarrow> None
                           | Some t1 \<Rightarrow>
                               Some (update_order oid
                                 (\<lambda>x. x\<lparr>o_status := REFUNDED,
                                         o_paymentStatus := PAYMENT_REFUNDED\<rparr>) t1))
                     ())))"


section \<open>Cart\<close>

text \<open>
  "Get or create cart": \<open>newCartId\<close> is the id the store gives a cart it creates.
\<close>

definition get_or_create_cart :: "state \<Rightarrow> id \<Rightarrow> id \<Rightarrow> Cart \<times> state" where
  "get_or_create_cart s userId newCartId =
     (case cart_of_user s userId of
        Some cart \<Rightarrow> (cart, s)
      | None \<Rightarrow>
          (\<lparr>c_id = newCartId, c_userId = userId\<rparr>,
           s\<lparr>carts := carts s @ [\<lparr>c_id = newCartId, c_userId = userId\<rparr>]\<rparr>))"







definition clearCart :: "state \<Rightarrow> id \<Rightarrow> (error + unit) \<times> state" where
  "clearCart s userId =
     (case cart_of_user s userId of
        None \<Rightarrow> (Inl NotFound, s)
      | Some cart \<Rightarrow>
          (Inr (), s\<lparr>cartItems := filter (\<lambda>i. ci_cartId i \<noteq> c_id cart) (cartItems s)\<rparr>))"

section \<open>Definitions used to state the properties\<close>

text \<open>
  The spec's pricing, in exact decimals: "subtotal = sum of unitPrice x quantity",
  "tax = round2(subtotal x 0.10)", "shipping = 0 if subtotal > 100 else 10",
  "total = subtotal + tax + shipping". These follow the spec's words, to be compared
  with \<open>calc_subtotal\<close>, \<open>calc_tax\<close>, \<open>calc_shipping\<close> and \<open>calc_total\<close>, which follow
  the source.
\<close>

definition round2 :: "rat \<Rightarrow> rat" where
  "round2 x = of_int (round (x * 100)) / 100"


definition spec_tax :: "rat \<Rightarrow> rat" where
  "spec_tax subtotal = round2 (subtotal * (10 / 100))"



text \<open>The order item \<^verbatim>\<open>tx.orderItem.create\<close> writes for a cart row and its product.\<close>

definition order_line :: "id \<Rightarrow> CartItem \<times> Product \<Rightarrow> OrderItem" where
  "order_line oid l =
     \<lparr>oi_orderId = oid, oi_productId = ci_productId (fst l), oi_quantity = ci_quantity (fst l),
      oi_price = p_price (snd l),
      oi_subtotal = line_subtotal (fst l) (snd l)\<rparr>"

text \<open>The quantity of product \<open>pid\<close> that a list of cart rows orders.\<close>

definition ordered_qty :: "id \<Rightarrow> (CartItem \<times> Product) list \<Rightarrow> int" where
  "ordered_qty pid ls = (\<Sum>l\<leftarrow>ls. if ci_productId (fst l) = pid then ci_quantity (fst l) else 0)"

text \<open>The quantity of product \<open>pid\<close> that a list of order items holds.\<close>

definition released_qty :: "id \<Rightarrow> OrderItem list \<Rightarrow> int" where
  "released_qty pid its = (\<Sum>it\<leftarrow>its. if oi_productId it = pid then oi_quantity it else 0)"

subsection \<open>A small store: the spec's scenario\<close>

text \<open>
  The spec's scenario: one product at 20.00 with 5 in stock, one user with an address
  and a cart holding 3 units of the product. \<open>shop_after\<close> is the store after the
  user's checkout, with the order \<open>shop_order\<close>.
\<close>

definition shop :: state where
  "shop =
     \<lparr>products = [''p1'' \<mapsto> \<lparr>p_name = ''pen'', p_price = 20, p_stock = 5\<rparr>],
      addresses = [''a1'' \<mapsto> ''u1''],
      carts = [\<lparr>c_id = ''c1'', c_userId = ''u1''\<rparr>],
      cartItems = [\<lparr>ci_id = ''i1'', ci_cartId = ''c1'', ci_productId = ''p1'', ci_quantity = 3\<rparr>],
      orders = [], orderItems = []\<rparr>"

definition shop_body :: CreateOrderBody where
  "shop_body = \<lparr>cb_addressId = Some ''a1'', cb_paymentMethod = None, cb_notes = None\<rparr>"

definition shop_order :: Order where
  "shop_order =
     \<lparr>o_id = ''o1'', o_userId = ''u1'', o_addressId = ''a1'', o_orderNumber = ''ORD-1'',
      o_paymentMethod = ''pending'', o_subtotal = 60, o_tax = 6,
      o_shipping = 10, o_total = 76, o_notes = None, o_status = PENDING,
      o_paymentStatus = UNPAID, o_stripePaymentId = None\<rparr>"

definition shop_after :: state where
  "shop_after =
     \<lparr>products = [''p1'' \<mapsto> \<lparr>p_name = ''pen'', p_price = 20, p_stock = 2\<rparr>],
      addresses = [''a1'' \<mapsto> ''u1''],
      carts = [\<lparr>c_id = ''c1'', c_userId = ''u1''\<rparr>],
      cartItems = [],
      orders = [shop_order],
      orderItems = [\<lparr>oi_orderId = ''o1'', oi_productId = ''p1'', oi_quantity = 3,
                     oi_price = 20, oi_subtotal = 60\<rparr>]\<rparr>"

text \<open>
  The same store with the product at 19.99 and one unit in the cart, the order its
  checkout writes and the store after it. \<open>rd\<close> of a decimal is the number that a
  JavaScript program writes with that decimal: the order's tax is the number
  1.9989999999999999 and its total the number 31.988999999999997.
\<close>

definition odd_shop :: state where
  "odd_shop =
     \<lparr>products = [''p1'' \<mapsto> \<lparr>p_name = ''pen'', p_price = 1999 / 100, p_stock = 5\<rparr>],
      addresses = [''a1'' \<mapsto> ''u1''],
      carts = [\<lparr>c_id = ''c1'', c_userId = ''u1''\<rparr>],
      cartItems = [\<lparr>ci_id = ''i1'', ci_cartId = ''c1'', ci_productId = ''p1'', ci_quantity = 1\<rparr>],
      orders = [], orderItems = []\<rparr>"

definition odd_order :: Order where
  "odd_order =
     \<lparr>o_id = ''o1'', o_userId = ''u1'', o_addressId = ''a1'', o_orderNumber = ''ORD-1'',
      o_paymentMethod = ''pending'', o_subtotal = rd (1999 / 100),
      o_tax = rd (19989999999999999 / 10000000000000000),
      o_shipping = 10, o_total = rd (31988999999999997 / 1000000000000000),
      o_notes = None, o_status = PENDING,
      o_paymentStatus = UNPAID, o_stripePaymentId = None\<rparr>"

definition odd_shop_after :: state where
  "odd_shop_after =
     \<lparr>products = [''p1'' \<mapsto> \<lparr>p_name = ''pen'', p_price = 1999 / 100, p_stock = 4\<rparr>],
      addresses = [''a1'' \<mapsto> ''u1''],
      carts = [\<lparr>c_id = ''c1'', c_userId = ''u1''\<rparr>],
      cartItems = [],
      orders = [odd_order],
      orderItems = [\<lparr>oi_orderId = ''o1'', oi_productId = ''p1'', oi_quantity = 1,
                     oi_price = 1999 / 100, oi_subtotal = rd (1999 / 100)\<rparr>]\<rparr>"





text \<open>
  The small store with 7 units in the cart (the stock is 5), and requests without an
  address, with an empty one, and with one the user does not own.
\<close>

definition shop_short :: state where
  "shop_short = shop\<lparr>cartItems :=
      [\<lparr>ci_id = ''i1'', ci_cartId = ''c1'', ci_productId = ''p1'', ci_quantity = 7\<rparr>]\<rparr>"

definition no_address_body :: CreateOrderBody where
  "no_address_body = \<lparr>cb_addressId = None, cb_paymentMethod = None, cb_notes = None\<rparr>"

definition empty_address_body :: CreateOrderBody where
  "empty_address_body = \<lparr>cb_addressId = Some [], cb_paymentMethod = None, cb_notes = None\<rparr>"

definition other_address_body :: CreateOrderBody where
  "other_address_body = \<lparr>cb_addressId = Some ''a9'', cb_paymentMethod = None, cb_notes = None\<rparr>"

text \<open>
  The small store after its checkout and the cancellation of the order; after the
  checkout and a successful payment; and after the refund of the paid order.
\<close>

definition shop_cancelled :: state where
  "shop_cancelled =
     shop_after\<lparr>products := [''p1'' \<mapsto> \<lparr>p_name = ''pen'', p_price = 20, p_stock = 5\<rparr>],
                orders := [shop_order\<lparr>o_status := CANCELLED\<rparr>]\<rparr>"

definition shop_paid :: state where
  "shop_paid =
     shop_after\<lparr>orders := [shop_order\<lparr>o_status := CONFIRMED, o_paymentStatus := PAID,
                                       o_stripePaymentId := Some ''pi_1''\<rparr>]\<rparr>"

definition shop_refunded :: state where
  "shop_refunded =
     shop_after\<lparr>products := [''p1'' \<mapsto> \<lparr>p_name = ''pen'', p_price = 20, p_stock = 5\<rparr>],
                orders := [shop_order\<lparr>o_status := REFUNDED, o_paymentStatus := PAYMENT_REFUNDED,
                                       o_stripePaymentId := Some ''pi_1''\<rparr>]\<rparr>"

text \<open>
  The small store after a payment intent has been recorded on its order; after the
  order with the intent has been cancelled; after that cancelled order's payment has
  been confirmed; and after a failed payment of the pending order.
\<close>

definition shop_intent :: state where
  "shop_intent = shop_after\<lparr>orders := [shop_order\<lparr>o_stripePaymentId := Some ''pi_1''\<rparr>]\<rparr>"

definition shop_intent_cancelled :: state where
  "shop_intent_cancelled =
     shop_cancelled\<lparr>orders := [shop_order\<lparr>o_status := CANCELLED,
                                            o_stripePaymentId := Some ''pi_1''\<rparr>]\<rparr>"

definition shop_revived :: state where
  "shop_revived =
     shop_cancelled\<lparr>orders := [shop_order\<lparr>o_status := CONFIRMED, o_paymentStatus := PAID,
                                            o_stripePaymentId := Some ''pi_1''\<rparr>]\<rparr>"

definition shop_failed :: state where
  "shop_failed =
     shop_after\<lparr>orders := [shop_order\<lparr>o_paymentStatus := FAILED,
                                        o_stripePaymentId := Some ''pi_1''\<rparr>]\<rparr>"

subsection \<open>The last unit\<close>










subsection \<open>Two carts of three\<close>








subsection \<open>Sequences of requests\<close>




text \<open>
  Every stock count is at least 0; a cart holds a product at most once (the store's
  unique key on cart and product), every cart row has a quantity of at least 1 and
  no order item has a negative quantity.
\<close>

definition stock_ok :: "state \<Rightarrow> bool" where
  "stock_ok s = (\<forall>pid p. products s pid = Some p \<longrightarrow> 0 \<le> p_stock p)"

definition rows_ok :: "state \<Rightarrow> bool" where
  "rows_ok s =
     (distinct (map (\<lambda>i. (ci_cartId i, ci_productId i)) (cartItems s)) \<and>
      (\<forall>i \<in> set (cartItems s). 1 \<le> ci_quantity i) \<and>
      (\<forall>it \<in> set (orderItems s). 0 \<le> oi_quantity it))"

definition consistent :: "state \<Rightarrow> bool" where
  "consistent s = (stock_ok s \<and> rows_ok s)"

section \<open>Facts about the checkout\<close>

text \<open>The handler's arithmetic on the example carts, evaluated.\<close>

lemma shop_money:
  "line_subtotal \<lparr>ci_id = ''i1'', ci_cartId = ''c1'', ci_productId = ''p1'', ci_quantity = 3\<rparr>
     \<lparr>p_name = ''pen'', p_price = 20, p_stock = 5\<rparr> = 60"
  "calc_subtotal
     [(\<lparr>ci_id = ''i1'', ci_cartId = ''c1'', ci_productId = ''p1'', ci_quantity = 3\<rparr>,
       \<lparr>p_name = ''pen'', p_price = 20, p_stock = 5\<rparr>)] = 60"
  "calc_tax 60 = 6"
  "calc_shipping 60 = 10"
  "calc_total 60 = 76"
  by code_simp+

lemma odd_money:
  "line_subtotal \<lparr>ci_id = ''i1'', ci_cartId = ''c1'', ci_productId = ''p1'', ci_quantity = 1\<rparr>
     \<lparr>p_name = ''pen'', p_price = 1999 / 100, p_stock = 5\<rparr> = rd (1999 / 100)"
  "calc_subtotal
     [(\<lparr>ci_id = ''i1'', ci_cartId = ''c1'', ci_productId = ''p1'', ci_quantity = 1\<rparr>,
       \<lparr>p_name = ''pen'', p_price = 1999 / 100, p_stock = 5\<rparr>)] = rd (1999 / 100)"
  "calc_tax (rd (1999 / 100)) = rd (19989999999999999 / 10000000000000000)"
  "calc_shipping (rd (1999 / 100)) = 10"
  "calc_total (rd (1999 / 100)) = rd (31988999999999997 / 1000000000000000)"
  by code_simp+




text \<open>
  The double nearest to 0.1, and two doubles that are their own nearest double. The
  line subtotal of 3 units at 1.10 is the number 3.3000000000000003, not 3.30.
\<close>

lemma rd_examples:
  "rd (1 / 10) = 3602879701896397 / 36028797018963968"
  "rd (rd (1 / 10)) = rd (1 / 10)"
  "rd 60 = 60"
  by code_simp+

lemma line_subtotal_example:
  "line_subtotal \<lparr>ci_id = ''i1'', ci_cartId = ''c1'', ci_productId = ''p1'', ci_quantity = 3\<rparr>
     \<lparr>p_name = ''pen'', p_price = 110 / 100, p_stock = 5\<rparr> =
   rd (33000000000000003 / 10000000000000000)"
  "rd (33000000000000003 / 10000000000000000) \<noteq> 330 / 100"
  by code_simp+


lemma createOrder_checks_Inr:
  assumes "createOrder_checks s u b = Inr ck"
  shows "\<not> falsy (cb_addressId b) \<and>
    (\<exists>cart. cart_of_user s u = Some cart \<and> c_id cart = ck_cartId ck) \<and>
    include_product s (cart_items s (ck_cartId ck)) = Some (ck_items ck) \<and> ck_items ck \<noteq> [] \<and>
    addresses s (the (cb_addressId b)) = Some u \<and> check_stock (ck_items ck) = None \<and>
    ck_addressId ck = the (cb_addressId b)"
proof (cases "falsy (cb_addressId b)")
  case True
  with assms show ?thesis by (simp add: createOrder_checks_def)
next
  case nf: False
  show ?thesis
  proof (cases "cart_of_user s u")
    case None
    with assms nf show ?thesis by (simp add: createOrder_checks_def)
  next
    case (Some cart)
    show ?thesis
    proof (cases "include_product s (cart_items s (c_id cart))")
      case None
      with assms nf Some show ?thesis by (simp add: createOrder_checks_def)
    next
      case js: (Some js)
      with assms nf Some show ?thesis
        by (cases "check_stock js") (auto simp: createOrder_checks_def split: if_splits)
    qed
  qed
qed

lemma createOrder_commit_cases:
  "createOrder_commit s u b ck n k =
     (case createOrder_tx s u b ck n k of
        None \<Rightarrow> (Inl Unavailable, s)
      | Some s' \<Rightarrow>
          (case complete_order s' n of
             None \<Rightarrow> (Inl Unavailable, s')
           | Some r \<Rightarrow> (Inr r, s')))"
  by (simp add: createOrder_commit_def transaction_def split: option.splits)

lemma createOrder_Inr:
  assumes "createOrder s u b n k = (Inr r, s')"
  shows "\<exists>ck. createOrder_checks s u b = Inr ck \<and> createOrder_tx s u b ck n k = Some s'"
proof (cases "createOrder_checks s u b")
  case (Inl e)
  with assms show ?thesis by (simp add: createOrder_def)
next
  case (Inr ck)
  with assms show ?thesis
    by (auto simp: createOrder_def createOrder_commit_cases split: option.splits)
qed


lemma createOrder_Inl:
  assumes "createOrder_checks s u b = Inl e"
  shows "createOrder s u b n k = (Inl e, s)"
  using assms by (simp add: createOrder_def)

lemma place_items_effect:
  "place_items oid js s = Some s' \<Longrightarrow>
     orders s' = orders s \<and> cartItems s' = cartItems s \<and> carts s' = carts s \<and>
     addresses s' = addresses s \<and>
     orderItems s' = orderItems s @ map (order_line oid) js \<and>
     (\<forall>pid. products s' pid =
        map_option (\<lambda>q. q\<lparr>p_stock := p_stock q - ordered_qty pid js\<rparr>) (products s pid))"
proof (induction oid js s arbitrary: s' rule: place_items.induct)
  case (1 oid s)
  then show ?case by (simp add: ordered_qty_def option.map_ident)
next
  case (2 oid i p r s)
  from "2.prems" obtain q where q: "products s (ci_productId i) = Some q"
    by (auto split: option.splits)
  let ?s1 = "s\<lparr>orderItems := orderItems s @ [order_line oid (i, p)],
               products := (products s)(ci_productId i \<mapsto> q\<lparr>p_stock := p_stock q - ci_quantity i\<rparr>)\<rparr>"
  from "2.prems" q have step: "place_items oid r ?s1 = Some s'"
    by (simp add: order_line_def)
  from "2.IH" [OF q] step have ih:
    "orders s' = orders ?s1 \<and> cartItems s' = cartItems ?s1 \<and> carts s' = carts ?s1 \<and>
     addresses s' = addresses ?s1 \<and>
     orderItems s' = orderItems ?s1 @ map (order_line oid) r \<and>
     (\<forall>pid. products s' pid =
        map_option (\<lambda>q. q\<lparr>p_stock := p_stock q - ordered_qty pid r\<rparr>) (products ?s1 pid))"
    by (simp add: order_line_def)
  then show ?case
    using q by (auto simp: ordered_qty_def algebra_simps)
qed

lemma createOrder_tx_Some:
  assumes "createOrder_tx s u b ck n k = Some s'"
  shows "\<exists>s1. place_items n (ck_items ck) (s\<lparr>orders := orders s @ [new_order u b ck n k]\<rparr>) = Some s1 \<and>
     s' = s1\<lparr>cartItems := filter (\<lambda>i. ci_cartId i \<noteq> ck_cartId ck) (cartItems s1)\<rparr> \<and>
     n \<notin> set (map o_id (orders s))"
  using assms unfolding createOrder_tx_def
  by (auto split: if_splits option.splits)

lemma new_order_fields:
  "o_id (new_order u b ck n k) = n"
  "o_userId (new_order u b ck n k) = u"
  "o_addressId (new_order u b ck n k) = ck_addressId ck"
  "o_subtotal (new_order u b ck n k) = calc_subtotal (ck_items ck)"
  "o_tax (new_order u b ck n k) = calc_tax (calc_subtotal (ck_items ck))"
  "o_shipping (new_order u b ck n k) = calc_shipping (calc_subtotal (ck_items ck))"
  "o_total (new_order u b ck n k) = calc_total (calc_subtotal (ck_items ck))"
  "o_status (new_order u b ck n k) = default_status"
  "o_paymentStatus (new_order u b ck n k) = default_paymentStatus"
  "o_stripePaymentId (new_order u b ck n k) = None"
  by (simp_all add: new_order_def Let_def)

lemmas createOrder_defs = createOrder_def createOrder_checks_def createOrder_commit_cases
  createOrder_tx_def complete_order_def order_items_def new_order_def cart_of_user_def
  falsy_def cart_items_def Let_def default_status_def default_paymentStatus_def

lemma odd_shop_run:
  "createOrder odd_shop ''u1'' shop_body ''o1'' ''ORD-1'' = (Inr (Some odd_order), odd_shop_after)"
  by (simp add: createOrder_defs odd_money odd_shop_def shop_body_def odd_shop_after_def
      odd_order_def)


lemma shop_run:
  "createOrder shop ''u1'' shop_body ''o1'' ''ORD-1'' = (Inr (Some shop_order), shop_after)"
  by (simp add: createOrder_defs shop_money shop_def shop_body_def shop_after_def
      shop_order_def)

section \<open>Pricing of an order\<close>




text \<open>
  The handler rounds nothing: one unit at 19.99 is handed to the store with the tax
  1.9989999999999999, where the tax rounded to 2 decimal places is 2.00, and with a
  total that is not the sum of the subtotal, the tax and the shipping it is handed
  with.
\<close>

lemma odd_shop_numbers:
  "createOrder odd_shop ''u1'' shop_body ''o1'' ''ORD-1'' = (Inr (Some odd_order), odd_shop_after) \<and>
   orders odd_shop_after = [odd_order] \<and>
   o_subtotal odd_order = rd (1999 / 100) \<and>
   o_tax odd_order = rd (19989999999999999 / 10000000000000000) \<and>
   spec_tax (1999 / 100) = 2 \<and>
   o_tax odd_order \<noteq> 2 \<and>
   o_total odd_order \<noteq> o_subtotal odd_order + o_tax odd_order + o_shipping odd_order"
proof -
  have "\<lfloor>1002 / 5 :: rat\<rfloor> = 200"
    by (simp add: floor_unique)
  then have t: "spec_tax (1999 / 100) = 2"
    by (simp add: spec_tax_def round2_def round_def)
  have t2: "rd (19989999999999999 / 10000000000000000) \<noteq> 2"
    by code_simp
  have s: "rd (31988999999999997 / 1000000000000000) \<noteq>
      rd (1999 / 100) + rd (19989999999999999 / 10000000000000000) + 10"
    by code_simp
  from t t2 s show ?thesis
    using odd_shop_run by (simp add: odd_shop_after_def odd_order_def)
qed

section \<open>The checkout's effect and its failures\<close>

lemma cart_of_user_tx:
  "carts s' = carts s \<Longrightarrow> cart_of_user s' u = cart_of_user s u"
  by (simp add: cart_of_user_def)

lemma include_product_mem:
  "include_product s xs = Some js \<Longrightarrow> i \<in> set xs \<Longrightarrow> products s (ci_productId i) = Some p
     \<Longrightarrow> (i, p) \<in> set js"
  by (induction xs arbitrary: js) (auto split: option.splits)

lemma check_stock_short:
  "(i, p) \<in> set js \<Longrightarrow> p_stock p < ci_quantity i \<Longrightarrow> check_stock js \<noteq> None"
  by (induction js rule: check_stock.induct) auto

lemma check_stock_find:
  "check_stock js =
     map_option (\<lambda>l. InsufficientStock (p_name (snd l)) (p_stock (snd l)))
       (find (\<lambda>l. p_stock (snd l) < ci_quantity (fst l)) js)"
  by (induction js rule: check_stock.induct) auto

lemma shop_cart: "cart_of_user shop ''u1'' = Some \<lparr>c_id = ''c1'', c_userId = ''u1''\<rparr>"
  by (simp add: shop_def cart_of_user_def)

text \<open>
  C3. On every successful checkout: the caller's cart has no rows left; one order has
  been added, owned by the caller, with status PENDING (and payment status UNPAID);
  one order item has been added per cart row, in the cart's order, holding the row's
  product and quantity, the product's price as it was at the checkout and the line
  subtotal the handler computes from that price and the quantity, the number
  \<^verbatim>\<open>Number(price) * quantity\<close>; and every product's stock is its stock before minus the
  quantity the cart ordered of it (products the cart does not name keep theirs).
\<close>

theorem createOrder_success_poststate:
  assumes "createOrder s userId body newId orderNumber = (Inr r, s')"
  shows "\<exists>cart lines ord.
     cart_of_user s userId = Some cart \<and>
     include_product s (cart_items s (c_id cart)) = Some lines \<and>
     cart_of_user s' userId = Some cart \<and> cart_items s' (c_id cart) = [] \<and>
     orders s' = orders s @ [ord] \<and> o_id ord = newId \<and> o_userId ord = userId \<and>
     o_status ord = PENDING \<and> o_paymentStatus ord = UNPAID \<and>
     orderItems s' = orderItems s @ map (order_line newId) lines \<and>
     (\<forall>pid. products s' pid =
        map_option (\<lambda>q. q\<lparr>p_stock := p_stock q - ordered_qty pid lines\<rparr>) (products s pid))"
proof -
  from createOrder_Inr [OF assms] obtain ck where
    ck: "createOrder_checks s userId body = Inr ck" and
    t: "createOrder_tx s userId body ck newId orderNumber = Some s'"
    by blast
  from createOrder_checks_Inr [OF ck] obtain cart where
    c: "cart_of_user s userId = Some cart" "c_id cart = ck_cartId ck" and
    j: "include_product s (cart_items s (ck_cartId ck)) = Some (ck_items ck)"
    by blast
  let ?ord = "new_order userId body ck newId orderNumber"
  let ?s0 = "s\<lparr>orders := orders s @ [?ord]\<rparr>"
  from createOrder_tx_Some [OF t] obtain s1 where
    p: "place_items newId (ck_items ck) ?s0 = Some s1" and
    s': "s' = s1\<lparr>cartItems := filter (\<lambda>i. ci_cartId i \<noteq> ck_cartId ck) (cartItems s1)\<rparr>"
    by blast
  note e = place_items_effect [OF p]
  from e s' have o: "orders s' = orders s @ [?ord]" by simp
  from e s' have cs: "carts s' = carts s" by simp
  from e s' have ci: "cart_items s' (ck_cartId ck) = []"
    by (simp add: cart_items_def)
  from e s' have oi: "orderItems s' = orderItems s @ map (order_line newId) (ck_items ck)"
    by simp
  from e s' have pr: "\<forall>pid. products s' pid =
        map_option (\<lambda>q. q\<lparr>p_stock := p_stock q - ordered_qty pid (ck_items ck)\<rparr>) (products s pid)"
    by simp
  show ?thesis
    using c j o ci oi pr cart_of_user_tx [OF cs, of userId]
    by (intro exI [of _ cart] exI [of _ "ck_items ck"] exI [of _ ?ord])
       (simp add: new_order_fields default_status_def default_paymentStatus_def)
qed

text \<open>
  A run of \<open>createOrder_success_poststate\<close> on the spec's scenario: 3 units ordered
  at 20.00, the order item holds the price 20 and the line subtotal 60, and the stock
  goes from 5 to 2.
\<close>

theorem createOrder_success_poststate_witness:
  "createOrder shop ''u1'' shop_body ''o1'' ''ORD-1'' = (Inr (Some shop_order), shop_after) \<and>
   (\<exists>cart lines ord.
     cart_of_user shop ''u1'' = Some cart \<and>
     include_product shop (cart_items shop (c_id cart)) = Some lines \<and>
     cart_of_user shop_after ''u1'' = Some cart \<and> cart_items shop_after (c_id cart) = [] \<and>
     orders shop_after = orders shop @ [ord] \<and> o_id ord = ''o1'' \<and> o_userId ord = ''u1'' \<and>
     o_status ord = PENDING \<and> o_paymentStatus ord = UNPAID \<and>
     orderItems shop_after = orderItems shop @ map (order_line ''o1'') lines \<and>
     (\<forall>pid. products shop_after pid =
        map_option (\<lambda>q. q\<lparr>p_stock := p_stock q - ordered_qty pid lines\<rparr>) (products shop pid))) \<and>
   map_option p_stock (products shop ''p1'') = Some 5 \<and>
   map_option p_stock (products shop_after ''p1'') = Some 2 \<and>
   orderItems shop_after =
     [\<lparr>oi_orderId = ''o1'', oi_productId = ''p1'', oi_quantity = 3, oi_price = 20,
       oi_subtotal = 60\<rparr>]"
proof -
  have "map_option p_stock (products shop ''p1'') = Some 5 \<and>
   map_option p_stock (products shop_after ''p1'') = Some 2 \<and>
   orderItems shop_after =
     [\<lparr>oi_orderId = ''o1'', oi_productId = ''p1'', oi_quantity = 3, oi_price = 20,
       oi_subtotal = 60\<rparr>]"
    by (simp add: shop_def shop_after_def)
  with createOrder_success_poststate [OF shop_run] shop_run show ?thesis by simp
qed

text \<open>
  C2. When some row of the caller's cart asks for more than its product's stock, the
  checkout fails and the store it leaves is the store it found: every stock count,
  the orders, the order items and the cart are as before. (The handler is run
  without another request in between its reads and its transaction.)
\<close>

theorem createOrder_short_stock_unchanged:
  assumes "cart_of_user s userId = Some cart"
    and "i \<in> set (cart_items s (c_id cart))"
    and "products s (ci_productId i) = Some p"
    and "p_stock p < ci_quantity i"
  shows "\<exists>e. createOrder s userId body newId orderNumber = (Inl e, s)"
proof -
  have "\<exists>e. createOrder_checks s userId body = Inl e"
  proof (cases "include_product s (cart_items s (c_id cart))")
    case None
    with assms(1) show ?thesis by (simp add: createOrder_checks_def)
  next
    case (Some js)
    from include_product_mem [OF Some assms(2,3)] have m: "(i, p) \<in> set js" .
    from check_stock_short [OF m assms(4)] obtain e where "check_stock js = Some e"
      by auto
    with assms(1) Some show ?thesis by (simp add: createOrder_checks_def)
  qed
  then show ?thesis by (auto simp: createOrder_Inl)
qed

text \<open>
  A run of \<open>createOrder_short_stock_unchanged\<close>: 7 units asked, 5 in stock.
\<close>

theorem createOrder_short_stock_unchanged_witness:
  "cart_of_user shop_short ''u1'' = Some \<lparr>c_id = ''c1'', c_userId = ''u1''\<rparr> \<and>
   \<lparr>ci_id = ''i1'', ci_cartId = ''c1'', ci_productId = ''p1'', ci_quantity = 7\<rparr>
      \<in> set (cart_items shop_short ''c1'') \<and>
   products shop_short ''p1'' = Some \<lparr>p_name = ''pen'', p_price = 20, p_stock = 5\<rparr> \<and>
   (\<exists>e. createOrder shop_short ''u1'' shop_body ''o1'' ''ORD-1'' = (Inl e, shop_short))"
proof -
  let ?cart = "\<lparr>c_id = ''c1'', c_userId = ''u1''\<rparr>"
  let ?i = "\<lparr>ci_id = ''i1'', ci_cartId = ''c1'', ci_productId = ''p1'', ci_quantity = 7\<rparr>"
  let ?p = "\<lparr>p_name = ''pen'', p_price = 20, p_stock = 5\<rparr>"
  have 1: "cart_of_user shop_short ''u1'' = Some ?cart"
    by (simp add: shop_short_def shop_def cart_of_user_def)
  have 2: "?i \<in> set (cart_items shop_short (c_id ?cart))"
    by (simp add: shop_short_def shop_def cart_items_def)
  have 3: "products shop_short (ci_productId ?i) = Some ?p"
    by (simp add: shop_short_def shop_def)
  have 4: "p_stock ?p < ci_quantity ?i" by simp
  from createOrder_short_stock_unchanged [OF 1 2 3 4] 1 2 3 show ?thesis by simp
qed

text \<open>
  C4, as amended. The checkout's checks come in this order, each with its own
  failure, and none changes the store: a missing or empty address id is a
  ValidationError; otherwise an absent or empty cart is EmptyCart, whoever owns the
  address; otherwise an address that is not the caller's is AddressNotFound;
  otherwise the first cart row that asks for more than its product's stock is
  InsufficientStock with that product's name and stock count.
\<close>

theorem createOrder_precondition_order:
  "(falsy (cb_addressId body) \<longrightarrow>
      createOrder s userId body newId orderNumber = (Inl ValidationError, s)) \<and>
   (\<not> falsy (cb_addressId body) \<and> cart_of_user s userId = None \<longrightarrow>
      createOrder s userId body newId orderNumber = (Inl EmptyCart, s)) \<and>
   (\<not> falsy (cb_addressId body) \<and> cart_of_user s userId = Some cart \<and>
    cart_items s (c_id cart) = [] \<longrightarrow>
      createOrder s userId body newId orderNumber = (Inl EmptyCart, s)) \<and>
   (\<not> falsy (cb_addressId body) \<and> cart_of_user s userId = Some cart \<and>
    include_product s (cart_items s (c_id cart)) = Some lines \<and> lines \<noteq> [] \<and>
    addresses s (the (cb_addressId body)) \<noteq> Some userId \<longrightarrow>
      createOrder s userId body newId orderNumber = (Inl AddressNotFound, s)) \<and>
   (\<not> falsy (cb_addressId body) \<and> cart_of_user s userId = Some cart \<and>
    include_product s (cart_items s (c_id cart)) = Some lines \<and>
    addresses s (the (cb_addressId body)) = Some userId \<and>
    find (\<lambda>l. p_stock (snd l) < ci_quantity (fst l)) lines = Some (i, p) \<longrightarrow>
      createOrder s userId body newId orderNumber =
        (Inl (InsufficientStock (p_name p) (p_stock p)), s))"
proof (intro conjI impI)
  assume "falsy (cb_addressId body)"
  then show "createOrder s userId body newId orderNumber = (Inl ValidationError, s)"
    by (simp add: createOrder_def createOrder_checks_def)
next
  assume "\<not> falsy (cb_addressId body) \<and> cart_of_user s userId = None"
  then show "createOrder s userId body newId orderNumber = (Inl EmptyCart, s)"
    by (simp add: createOrder_def createOrder_checks_def)
next
  assume "\<not> falsy (cb_addressId body) \<and> cart_of_user s userId = Some cart \<and>
    cart_items s (c_id cart) = []"
  then show "createOrder s userId body newId orderNumber = (Inl EmptyCart, s)"
    by (simp add: createOrder_def createOrder_checks_def)
next
  assume "\<not> falsy (cb_addressId body) \<and> cart_of_user s userId = Some cart \<and>
    include_product s (cart_items s (c_id cart)) = Some lines \<and> lines \<noteq> [] \<and>
    addresses s (the (cb_addressId body)) \<noteq> Some userId"
  then show "createOrder s userId body newId orderNumber = (Inl AddressNotFound, s)"
    by (simp add: createOrder_def createOrder_checks_def)
next
  assume a: "\<not> falsy (cb_addressId body) \<and> cart_of_user s userId = Some cart \<and>
    include_product s (cart_items s (c_id cart)) = Some lines \<and>
    addresses s (the (cb_addressId body)) = Some userId \<and>
    find (\<lambda>l. p_stock (snd l) < ci_quantity (fst l)) lines = Some (i, p)"
  then have "lines \<noteq> []" by auto
  with a show "createOrder s userId body newId orderNumber =
        (Inl (InsufficientStock (p_name p) (p_stock p)), s)"
    by (simp add: createOrder_def createOrder_checks_def check_stock_find)
qed

text \<open>
  Runs of \<open>createOrder_precondition_order\<close>, one for each of its five cases.
\<close>

theorem createOrder_precondition_order_witness:
  "falsy (cb_addressId no_address_body) \<and>
   createOrder shop ''u1'' no_address_body ''o1'' ''ORD-1'' = (Inl ValidationError, shop) \<and>
   \<not> falsy (cb_addressId other_address_body) \<and> cart_of_user shop ''u2'' = None \<and>
   createOrder shop ''u2'' other_address_body ''o1'' ''ORD-1'' = (Inl EmptyCart, shop) \<and>
   cart_of_user shop ''u1'' = Some \<lparr>c_id = ''c1'', c_userId = ''u1''\<rparr> \<and>
   cart_items (shop\<lparr>cartItems := []\<rparr>) ''c1'' = [] \<and>
   createOrder (shop\<lparr>cartItems := []\<rparr>) ''u1'' other_address_body ''o1'' ''ORD-1'' =
     (Inl EmptyCart, shop\<lparr>cartItems := []\<rparr>) \<and>
   createOrder shop ''u1'' other_address_body ''o1'' ''ORD-1'' = (Inl AddressNotFound, shop) \<and>
   createOrder shop_short ''u1'' shop_body ''o1'' ''ORD-1'' =
     (Inl (InsufficientStock ''pen'' 5), shop_short)"
proof -
  let ?cart = "\<lparr>c_id = ''c1'', c_userId = ''u1''\<rparr>"
  let ?i = "\<lparr>ci_id = ''i1'', ci_cartId = ''c1'', ci_productId = ''p1'', ci_quantity = 3\<rparr>"
  let ?i7 = "\<lparr>ci_id = ''i1'', ci_cartId = ''c1'', ci_productId = ''p1'', ci_quantity = 7\<rparr>"
  let ?p = "\<lparr>p_name = ''pen'', p_price = 20, p_stock = 5\<rparr>"
  have f1: "falsy (cb_addressId no_address_body)"
    by (simp add: falsy_def no_address_body_def)
  have f2: "\<not> falsy (cb_addressId other_address_body)"
    by (simp add: falsy_def other_address_body_def)
  have f3: "\<not> falsy (cb_addressId shop_body)"
    by (simp add: falsy_def shop_body_def)
  have c2: "cart_of_user shop ''u2'' = None"
    by (simp add: shop_def cart_of_user_def)
  have c1e: "cart_of_user (shop\<lparr>cartItems := []\<rparr>) ''u1'' = Some ?cart"
    by (simp add: shop_def cart_of_user_def)
  have e: "cart_items (shop\<lparr>cartItems := []\<rparr>) (c_id ?cart) = []"
    by (simp add: cart_items_def)
  have j: "include_product shop (cart_items shop (c_id ?cart)) = Some [(?i, ?p)]"
    by (simp add: shop_def cart_items_def)
  have a: "addresses shop (the (cb_addressId other_address_body)) \<noteq> Some ''u1''"
    by (simp add: shop_def other_address_body_def)
  have c1s: "cart_of_user shop_short ''u1'' = Some ?cart"
    by (simp add: shop_short_def shop_def cart_of_user_def)
  have js: "include_product shop_short (cart_items shop_short (c_id ?cart)) = Some [(?i7, ?p)]"
    by (simp add: shop_short_def shop_def cart_items_def)
  have as: "addresses shop_short (the (cb_addressId shop_body)) = Some ''u1''"
    by (simp add: shop_short_def shop_def shop_body_def)
  have fs: "find (\<lambda>l. p_stock (snd l) < ci_quantity (fst l)) [(?i7, ?p)] = Some (?i7, ?p)"
    by simp
  note t = createOrder_precondition_order
  from t [of no_address_body shop "''u1''" "''o1''" "''ORD-1''"] f1
  have r1: "createOrder shop ''u1'' no_address_body ''o1'' ''ORD-1'' = (Inl ValidationError, shop)"
    by blast
  from t [of other_address_body shop "''u2''" "''o1''" "''ORD-1''"] f2 c2
  have r2: "createOrder shop ''u2'' other_address_body ''o1'' ''ORD-1'' = (Inl EmptyCart, shop)"
    by blast
  from t [of other_address_body "shop\<lparr>cartItems := []\<rparr>" "''u1''" "''o1''" "''ORD-1''" ?cart] f2 c1e e
  have r3: "createOrder (shop\<lparr>cartItems := []\<rparr>) ''u1'' other_address_body ''o1'' ''ORD-1'' =
     (Inl EmptyCart, shop\<lparr>cartItems := []\<rparr>)"
    by blast
  from t [of other_address_body shop "''u1''" "''o1''" "''ORD-1''" ?cart "[(?i, ?p)]"] f2 shop_cart j a
  have r4: "createOrder shop ''u1'' other_address_body ''o1'' ''ORD-1'' = (Inl AddressNotFound, shop)"
    by blast
  from t [of shop_body shop_short "''u1''" "''o1''" "''ORD-1''" ?cart "[(?i7, ?p)]" ?i7 ?p] f3 c1s js as fs
  have r5: "createOrder shop_short ''u1'' shop_body ''o1'' ''ORD-1'' =
     (Inl (InsufficientStock (p_name ?p) (p_stock ?p)), shop_short)"
    by blast
  from f1 r1 f2 c2 r2 shop_cart e r3 r4 r5 show ?thesis by simp
qed

text \<open>
  C4 as stated fails: "if the cart is absent or empty the result is EmptyCart
  (regardless of the address)". A user without a cart who sends no address id, or an
  empty one, is answered ValidationError: the address id is looked at first.
\<close>

theorem createOrder_address_checked_first:
  "cart_of_user shop ''u2'' = None \<and>
   createOrder shop ''u2'' no_address_body ''o1'' ''ORD-1'' = (Inl ValidationError, shop) \<and>
   createOrder shop ''u2'' empty_address_body ''o1'' ''ORD-1'' = (Inl ValidationError, shop) \<and>
   ValidationError \<noteq> EmptyCart"
  by (simp add: createOrder_def createOrder_checks_def falsy_def no_address_body_def
      empty_address_body_def shop_def cart_of_user_def)

section \<open>Cancellation and refund\<close>

lemma restore_stock_effect:
  "restore_stock its s = Some s' \<Longrightarrow>
     orders s' = orders s \<and> cartItems s' = cartItems s \<and> carts s' = carts s \<and>
     addresses s' = addresses s \<and> orderItems s' = orderItems s \<and>
     (\<forall>pid. products s' pid =
        map_option (\<lambda>q. q\<lparr>p_stock := p_stock q + released_qty pid its\<rparr>) (products s pid))"
proof (induction its s arbitrary: s' rule: restore_stock.induct)
  case (1 s)
  then show ?case by (simp add: released_qty_def option.map_ident)
next
  case (2 it r s)
  from "2.prems" obtain q where q: "products s (oi_productId it) = Some q"
    by (auto split: option.splits)
  let ?s1 = "s\<lparr>products := (products s)(oi_productId it \<mapsto> q\<lparr>p_stock := p_stock q + oi_quantity it\<rparr>)\<rparr>"
  from "2.prems" q have step: "restore_stock r ?s1 = Some s'" by simp
  from "2.IH" [OF q step] show ?case
    using q by (auto simp: released_qty_def algebra_simps)
qed

lemma restore_stock_total:
  "\<forall>it \<in> set its. products s (oi_productId it) \<noteq> None \<Longrightarrow> \<exists>s'. restore_stock its s = Some s'"
proof (induction its s rule: restore_stock.induct)
  case (1 s)
  then show ?case by simp
next
  case (2 it r s)
  from "2.prems" obtain q where q: "products s (oi_productId it) = Some q" by auto
  let ?s1 = "s\<lparr>products := (products s)(oi_productId it \<mapsto> q\<lparr>p_stock := p_stock q + oi_quantity it\<rparr>)\<rparr>"
  from "2.prems" have "\<forall>x \<in> set r. products ?s1 (oi_productId x) \<noteq> None" by simp
  from "2.IH" [OF q this] q show ?case by simp
qed

lemma find_map_same:
  assumes "\<And>x. P (f x) = P x"
  shows "find P (map f xs) = map_option f (find P xs)"
  using assms by (induction xs) auto

lemma find_update_order:
  "find (\<lambda>x. o_id x = oid \<and> o_userId x = u)
     (map (\<lambda>x. if o_id x = oid' then x\<lparr>o_status := st\<rparr> else x) xs) =
   map_option (\<lambda>x. if o_id x = oid' then x\<lparr>o_status := st\<rparr> else x)
     (find (\<lambda>x. o_id x = oid \<and> o_userId x = u) xs)"
  by (rule find_map_same) simp

lemmas shop_defs = shop_def shop_after_def shop_order_def shop_cancelled_def shop_paid_def
  shop_refunded_def

lemma shop_cancel_run: "cancelOrder shop_after ''u1'' ''o1'' = (Inr (), shop_cancelled)"
  by (simp add: cancelOrder_def transaction_def order_items_def update_order_def shop_defs)

lemma shop_refund_run: "refundPayment shop_paid ADMIN (Some ''o1'') = (Inr (), shop_refunded)"
  by (simp add: refundPayment_def transaction_def order_items_def update_order_def shop_defs)

text \<open>
  C6. \<open>cancelOrder\<close>: when no order with this id belongs to the caller the answer is
  NotFound; when the caller's order is not PENDING (an already cancelled one
  included) the answer is InvalidTransition; in both cases the store, and so every
  stock count, is unchanged. When the caller's order is PENDING (and its items'
  products exist) the call succeeds, every product's stock grows by the quantity the
  order's items hold of it, the order's status becomes CANCELLED and nothing else
  changes. A call succeeds only on a PENDING order of the caller's, and the same
  call made again is rejected with InvalidTransition.
\<close>

theorem cancelOrder_cases:
  "(\<not> (\<exists>x \<in> set (orders s). o_id x = oid \<and> o_userId x = userId) \<longrightarrow>
      cancelOrder s userId oid = (Inl NotFound, s)) \<and>
   (find (\<lambda>x. o_id x = oid \<and> o_userId x = userId) (orders s) = Some ord \<and>
    o_status ord \<noteq> PENDING \<longrightarrow>
      cancelOrder s userId oid = (Inl InvalidTransition, s)) \<and>
   (find (\<lambda>x. o_id x = oid \<and> o_userId x = userId) (orders s) = Some ord \<and>
    o_status ord = PENDING \<and>
    (\<forall>it \<in> set (order_items s oid). products s (oi_productId it) \<noteq> None) \<longrightarrow>
      (\<exists>s'. cancelOrder s userId oid = (Inr (), s') \<and>
         (\<forall>pid. products s' pid =
            map_option (\<lambda>q. q\<lparr>p_stock := p_stock q + released_qty pid (order_items s oid)\<rparr>)
              (products s pid)) \<and>
         orders s' = map (\<lambda>x. if o_id x = oid then x\<lparr>o_status := CANCELLED\<rparr> else x) (orders s) \<and>
         orderItems s' = orderItems s \<and> cartItems s' = cartItems s \<and> carts s' = carts s \<and>
         addresses s' = addresses s)) \<and>
   (cancelOrder s userId oid = (Inr r, t) \<longrightarrow>
      (\<exists>x. find (\<lambda>x. o_id x = oid \<and> o_userId x = userId) (orders s) = Some x \<and>
           o_status x = PENDING) \<and>
      cancelOrder t userId oid = (Inl InvalidTransition, t))"
proof (intro conjI impI)
  assume "\<not> (\<exists>x \<in> set (orders s). o_id x = oid \<and> o_userId x = userId)"
  then have "find (\<lambda>x. o_id x = oid \<and> o_userId x = userId) (orders s) = None"
    by (simp add: find_None_iff)
  then show "cancelOrder s userId oid = (Inl NotFound, s)"
    by (simp add: cancelOrder_def)
next
  assume "find (\<lambda>x. o_id x = oid \<and> o_userId x = userId) (orders s) = Some ord \<and>
    o_status ord \<noteq> PENDING"
  then show "cancelOrder s userId oid = (Inl InvalidTransition, s)"
    by (simp add: cancelOrder_def)
next
  assume a: "find (\<lambda>x. o_id x = oid \<and> o_userId x = userId) (orders s) = Some ord \<and>
    o_status ord = PENDING \<and>
    (\<forall>it \<in> set (order_items s oid). products s (oi_productId it) \<noteq> None)"
  then obtain s1 where r: "restore_stock (order_items s oid) s = Some s1"
    using restore_stock_total by blast
  note e = restore_stock_effect [OF r]
  let ?s' = "update_order oid (\<lambda>x. x\<lparr>o_status := CANCELLED\<rparr>) s1"
  from a r have "cancelOrder s userId oid = (Inr (), ?s')"
    by (simp add: cancelOrder_def transaction_def)
  moreover from e have "\<forall>pid. products ?s' pid =
            map_option (\<lambda>q. q\<lparr>p_stock := p_stock q + released_qty pid (order_items s oid)\<rparr>)
              (products s pid)"
    by (simp add: update_order_def)
  moreover from e have
    "orders ?s' = map (\<lambda>x. if o_id x = oid then x\<lparr>o_status := CANCELLED\<rparr> else x) (orders s)"
    "orderItems ?s' = orderItems s" "cartItems ?s' = cartItems s" "carts ?s' = carts s"
    "addresses ?s' = addresses s"
    by (simp_all add: update_order_def)
  ultimately show "\<exists>s'. cancelOrder s userId oid = (Inr (), s') \<and>
         (\<forall>pid. products s' pid =
            map_option (\<lambda>q. q\<lparr>p_stock := p_stock q + released_qty pid (order_items s oid)\<rparr>)
              (products s pid)) \<and>
         orders s' = map (\<lambda>x. if o_id x = oid then x\<lparr>o_status := CANCELLED\<rparr> else x) (orders s) \<and>
         orderItems s' = orderItems s \<and> cartItems s' = cartItems s \<and> carts s' = carts s \<and>
         addresses s' = addresses s"
    by blast
next
  assume c: "cancelOrder s userId oid = (Inr r, t)"
  then obtain x where f: "find (\<lambda>x. o_id x = oid \<and> o_userId x = userId) (orders s) = Some x"
    by (cases "find (\<lambda>x. o_id x = oid \<and> o_userId x = userId) (orders s)")
       (auto simp: cancelOrder_def)
  with c have p: "o_status x = PENDING"
    by (auto simp: cancelOrder_def split: if_splits)
  from f p show "\<exists>x. find (\<lambda>x. o_id x = oid \<and> o_userId x = userId) (orders s) = Some x \<and>
           o_status x = PENDING"
    by blast
  from f have xid: "o_id x = oid" by (auto dest: find_Some_iff [THEN iffD1])
  from c f p obtain s1 where r: "restore_stock (order_items s oid) s = Some s1"
    and t: "t = update_order oid (\<lambda>x. x\<lparr>o_status := CANCELLED\<rparr>) s1"
    by (cases "restore_stock (order_items s oid) s") (auto simp: cancelOrder_def transaction_def)
  from restore_stock_effect [OF r] t have
    "orders t = map (\<lambda>x. if o_id x = oid then x\<lparr>o_status := CANCELLED\<rparr> else x) (orders s)"
    by (simp add: update_order_def)
  with f xid have "find (\<lambda>x. o_id x = oid \<and> o_userId x = userId) (orders t) =
     Some (x\<lparr>o_status := CANCELLED\<rparr>)"
    by (simp add: find_update_order)
  then show "cancelOrder t userId oid = (Inl InvalidTransition, t)"
    by (simp add: cancelOrder_def)
qed

text \<open>
  Runs of \<open>cancelOrder_cases\<close>: another user's call, a call on the cancelled order,
  and the owner's call on the pending order of 3 units, which takes the stock from 2
  back to 5 and the status to CANCELLED.
\<close>

theorem cancelOrder_cases_witness:
  "cancelOrder shop_after ''u2'' ''o1'' = (Inl NotFound, shop_after) \<and>
   cancelOrder shop_cancelled ''u1'' ''o1'' = (Inl InvalidTransition, shop_cancelled) \<and>
   (\<exists>s'. cancelOrder shop_after ''u1'' ''o1'' = (Inr (), s') \<and>
         (\<forall>pid. products s' pid =
            map_option (\<lambda>q. q\<lparr>p_stock := p_stock q + released_qty pid (order_items shop_after ''o1'')\<rparr>)
              (products shop_after pid)) \<and>
         orders s' = map (\<lambda>x. if o_id x = ''o1'' then x\<lparr>o_status := CANCELLED\<rparr> else x)
                       (orders shop_after) \<and>
         orderItems s' = orderItems shop_after \<and> cartItems s' = cartItems shop_after \<and>
         carts s' = carts shop_after \<and> addresses s' = addresses shop_after) \<and>
   cancelOrder shop_after ''u1'' ''o1'' = (Inr (), shop_cancelled) \<and>
   (\<exists>x. find (\<lambda>x. o_id x = ''o1'' \<and> o_userId x = ''u1'') (orders shop_after) = Some x \<and>
        o_status x = PENDING) \<and>
   map_option p_stock (products shop_after ''p1'') = Some 2 \<and>
   map_option p_stock (products shop_cancelled ''p1'') = Some 5 \<and>
   map o_status (orders shop_cancelled) = [CANCELLED]"
proof -
  have v: "map_option p_stock (products shop_after ''p1'') = Some 2 \<and>
   map_option p_stock (products shop_cancelled ''p1'') = Some 5 \<and>
   map o_status (orders shop_cancelled) = [CANCELLED]"
    by (simp add: shop_defs)
  note t = cancelOrder_cases
  have h1: "\<not> (\<exists>x \<in> set (orders shop_after). o_id x = ''o1'' \<and> o_userId x = ''u2'')"
    by (simp add: shop_defs)
  have h2: "find (\<lambda>x. o_id x = ''o1'' \<and> o_userId x = ''u1'') (orders shop_cancelled) =
      Some (shop_order\<lparr>o_status := CANCELLED\<rparr>) \<and>
      o_status (shop_order\<lparr>o_status := CANCELLED\<rparr>) \<noteq> PENDING"
    by (simp add: shop_defs)
  have h3: "find (\<lambda>x. o_id x = ''o1'' \<and> o_userId x = ''u1'') (orders shop_after) = Some shop_order \<and>
      o_status shop_order = PENDING \<and>
      (\<forall>it \<in> set (order_items shop_after ''o1''). products shop_after (oi_productId it) \<noteq> None)"
    by (simp add: shop_defs order_items_def)
  from t [of shop_after "''o1''" "''u2''"] h1
  have r1: "cancelOrder shop_after ''u2'' ''o1'' = (Inl NotFound, shop_after)" by blast
  from t [of shop_cancelled "''o1''" "''u1''" "shop_order\<lparr>o_status := CANCELLED\<rparr>"] h2
  have r2: "cancelOrder shop_cancelled ''u1'' ''o1'' = (Inl InvalidTransition, shop_cancelled)"
    by blast
  from t [of shop_after "''o1''" "''u1''" shop_order] h3
  have r3: "\<exists>s'. cancelOrder shop_after ''u1'' ''o1'' = (Inr (), s') \<and>
         (\<forall>pid. products s' pid =
            map_option (\<lambda>q. q\<lparr>p_stock := p_stock q + released_qty pid (order_items shop_after ''o1'')\<rparr>)
              (products shop_after pid)) \<and>
         orders s' = map (\<lambda>x. if o_id x = ''o1'' then x\<lparr>o_status := CANCELLED\<rparr> else x)
                       (orders shop_after) \<and>
         orderItems s' = orderItems shop_after \<and> cartItems s' = cartItems shop_after \<and>
         carts s' = carts shop_after \<and> addresses s' = addresses shop_after"
    by blast
  from t [of shop_after "''o1''" "''u1''" _ "()" shop_cancelled] shop_cancel_run
  have r4: "\<exists>x. find (\<lambda>x. o_id x = ''o1'' \<and> o_userId x = ''u1'') (orders shop_after) = Some x \<and>
        o_status x = PENDING"
    by blast
  from r1 r2 r3 r4 v shop_cancel_run show ?thesis by blast
qed

text \<open>
  C7. \<open>refundPayment\<close>: a caller whose role is not ADMIN is answered Forbidden, and
  an admin's call on an order that is not PAID is answered InvalidTransition, both
  with the store unchanged. An admin's call on a PAID order (whose items' products
  exist) succeeds: every product's stock grows by the quantity the order's items
  hold of it, the order's status and payment status both become REFUNDED, and
  nothing else changes. A call succeeds only for an admin and a PAID order.
\<close>

theorem refundPayment_cases:
  "(userRole \<noteq> ADMIN \<longrightarrow> refundPayment s userRole orderId = (Inl Forbidden, s)) \<and>
   (find (\<lambda>x. o_id x = oid) (orders s) = Some ord \<and> o_paymentStatus ord \<noteq> PAID \<longrightarrow>
      refundPayment s ADMIN (Some oid) = (Inl InvalidTransition, s)) \<and>
   (find (\<lambda>x. o_id x = oid) (orders s) = Some ord \<and> o_paymentStatus ord = PAID \<and>
    (\<forall>it \<in> set (order_items s oid). products s (oi_productId it) \<noteq> None) \<longrightarrow>
      (\<exists>s'. refundPayment s ADMIN (Some oid) = (Inr (), s') \<and>
         (\<forall>pid. products s' pid =
            map_option (\<lambda>q. q\<lparr>p_stock := p_stock q + released_qty pid (order_items s oid)\<rparr>)
              (products s pid)) \<and>
         orders s' =
           map (\<lambda>x. if o_id x = oid
                    then x\<lparr>o_status := REFUNDED, o_paymentStatus := PAYMENT_REFUNDED\<rparr> else x)
               (orders s) \<and>
         orderItems s' = orderItems s \<and> cartItems s' = cartItems s \<and> carts s' = carts s \<and>
         addresses s' = addresses s)) \<and>
   (refundPayment s userRole orderId = (Inr r, t) \<longrightarrow>
      userRole = ADMIN \<and>
      (\<exists>i x. orderId = Some i \<and> find (\<lambda>x. o_id x = i) (orders s) = Some x \<and>
             o_paymentStatus x = PAID))"
proof (intro conjI impI)
  assume "userRole \<noteq> ADMIN"
  then show "refundPayment s userRole orderId = (Inl Forbidden, s)"
    by (simp add: refundPayment_def)
next
  assume "find (\<lambda>x. o_id x = oid) (orders s) = Some ord \<and> o_paymentStatus ord \<noteq> PAID"
  then show "refundPayment s ADMIN (Some oid) = (Inl InvalidTransition, s)"
    by (simp add: refundPayment_def)
next
  assume a: "find (\<lambda>x. o_id x = oid) (orders s) = Some ord \<and> o_paymentStatus ord = PAID \<and>
    (\<forall>it \<in> set (order_items s oid). products s (oi_productId it) \<noteq> None)"
  then obtain s1 where r: "restore_stock (order_items s oid) s = Some s1"
    using restore_stock_total by blast
  note e = restore_stock_effect [OF r]
  let ?s' = "update_order oid (\<lambda>x. x\<lparr>o_status := REFUNDED, o_paymentStatus := PAYMENT_REFUNDED\<rparr>) s1"
  from a r have "refundPayment s ADMIN (Some oid) = (Inr (), ?s')"
    by (simp add: refundPayment_def transaction_def)
  moreover from e have "\<forall>pid. products ?s' pid =
            map_option (\<lambda>q. q\<lparr>p_stock := p_stock q + released_qty pid (order_items s oid)\<rparr>)
              (products s pid)"
    by (simp add: update_order_def)
  moreover from e have
    "orders ?s' = map (\<lambda>x. if o_id x = oid
                    then x\<lparr>o_status := REFUNDED, o_paymentStatus := PAYMENT_REFUNDED\<rparr> else x)
               (orders s)"
    "orderItems ?s' = orderItems s" "cartItems ?s' = cartItems s" "carts ?s' = carts s"
    "addresses ?s' = addresses s"
    by (simp_all add: update_order_def)
  ultimately show "\<exists>s'. refundPayment s ADMIN (Some oid) = (Inr (), s') \<and>
         (\<forall>pid. products s' pid =
            map_option (\<lambda>q. q\<lparr>p_stock := p_stock q + released_qty pid (order_items s oid)\<rparr>)
              (products s pid)) \<and>
         orders s' =
           map (\<lambda>x. if o_id x = oid
                    then x\<lparr>o_status := REFUNDED, o_paymentStatus := PAYMENT_REFUNDED\<rparr> else x)
               (orders s) \<and>
         orderItems s' = orderItems s \<and> cartItems s' = cartItems s \<and> carts s' = carts s \<and>
         addresses s' = addresses s"
    by blast
next
  assume c: "refundPayment s userRole orderId = (Inr r, t)"
  then show "userRole = ADMIN"
    by (auto simp: refundPayment_def split: if_splits)
next
  assume c: "refundPayment s userRole orderId = (Inr r, t)"
  then have adm: "userRole = ADMIN"
    by (auto simp: refundPayment_def split: if_splits)
  with c obtain i where i: "orderId = Some i"
    by (cases orderId) (auto simp: refundPayment_def)
  with c adm obtain x where x: "find (\<lambda>x. o_id x = i) (orders s) = Some x"
    by (cases "find (\<lambda>x. o_id x = i) (orders s)") (auto simp: refundPayment_def)
  with c adm i have "o_paymentStatus x = PAID"
    by (auto simp: refundPayment_def split: if_splits)
  with i x show "\<exists>i x. orderId = Some i \<and> find (\<lambda>x. o_id x = i) (orders s) = Some x \<and>
             o_paymentStatus x = PAID"
    by blast
qed

text \<open>
  Runs of \<open>refundPayment_cases\<close>: a customer's call, an admin's call on the unpaid
  order, and an admin's call on the paid order.
\<close>

theorem refundPayment_cases_witness:
  "refundPayment shop_paid CUSTOMER (Some ''o1'') = (Inl Forbidden, shop_paid) \<and>
   refundPayment shop_after ADMIN (Some ''o1'') = (Inl InvalidTransition, shop_after) \<and>
   (\<exists>s'. refundPayment shop_paid ADMIN (Some ''o1'') = (Inr (), s') \<and>
         (\<forall>pid. products s' pid =
            map_option (\<lambda>q. q\<lparr>p_stock := p_stock q + released_qty pid (order_items shop_paid ''o1'')\<rparr>)
              (products shop_paid pid)) \<and>
         orders s' =
           map (\<lambda>x. if o_id x = ''o1''
                    then x\<lparr>o_status := REFUNDED, o_paymentStatus := PAYMENT_REFUNDED\<rparr> else x)
               (orders shop_paid) \<and>
         orderItems s' = orderItems shop_paid \<and> cartItems s' = cartItems shop_paid \<and>
         carts s' = carts shop_paid \<and> addresses s' = addresses shop_paid) \<and>
   refundPayment shop_paid ADMIN (Some ''o1'') = (Inr (), shop_refunded) \<and>
   (\<exists>i x. Some ''o1'' = Some i \<and> find (\<lambda>x. o_id x = i) (orders shop_paid) = Some x \<and>
          o_paymentStatus x = PAID)"
proof -
  note t = refundPayment_cases
  let ?paid = "shop_order\<lparr>o_status := CONFIRMED, o_paymentStatus := PAID,
                         o_stripePaymentId := Some ''pi_1''\<rparr>"
  have h1: "CUSTOMER \<noteq> ADMIN" by simp
  have h2: "find (\<lambda>x. o_id x = ''o1'') (orders shop_after) = Some shop_order \<and>
      o_paymentStatus shop_order \<noteq> PAID"
    by (simp add: shop_defs)
  have h3: "find (\<lambda>x. o_id x = ''o1'') (orders shop_paid) = Some ?paid \<and>
      o_paymentStatus ?paid = PAID \<and>
      (\<forall>it \<in> set (order_items shop_paid ''o1''). products shop_paid (oi_productId it) \<noteq> None)"
    by (simp add: shop_defs order_items_def)
  from t [of CUSTOMER shop_paid "Some ''o1''"] h1
  have r1: "refundPayment shop_paid CUSTOMER (Some ''o1'') = (Inl Forbidden, shop_paid)" by blast
  from t [of _ shop_after _ "''o1''" shop_order] h2
  have r2: "refundPayment shop_after ADMIN (Some ''o1'') = (Inl InvalidTransition, shop_after)"
    by blast
  from t [of _ shop_paid _ "''o1''" ?paid] h3
  have r3: "\<exists>s'. refundPayment shop_paid ADMIN (Some ''o1'') = (Inr (), s') \<and>
         (\<forall>pid. products s' pid =
            map_option (\<lambda>q. q\<lparr>p_stock := p_stock q + released_qty pid (order_items shop_paid ''o1'')\<rparr>)
              (products shop_paid pid)) \<and>
         orders s' =
           map (\<lambda>x. if o_id x = ''o1''
                    then x\<lparr>o_status := REFUNDED, o_paymentStatus := PAYMENT_REFUNDED\<rparr> else x)
               (orders shop_paid) \<and>
         orderItems s' = orderItems shop_paid \<and> cartItems s' = cartItems shop_paid \<and>
         carts s' = carts shop_paid \<and> addresses s' = addresses shop_paid"
    by blast
  from t [of ADMIN shop_paid "Some ''o1''" _ _ "()" shop_refunded] shop_refund_run
  have r4: "\<exists>i x. Some ''o1'' = Some i \<and> find (\<lambda>x. o_id x = i) (orders shop_paid) = Some x \<and>
          o_paymentStatus x = PAID"
    by blast
  from r1 r2 r3 r4 shop_refund_run show ?thesis by blast
qed

section \<open>Clearing the cart\<close>

text \<open>
  C10. \<open>clearCart\<close> for a user without a cart answers NotFound and changes nothing.
  For a user with a cart it succeeds, the cart has no rows afterwards, and the rows
  of other carts and the rest of the store are as before.
\<close>

theorem clearCart_cases:
  "(cart_of_user s userId = None \<longrightarrow> clearCart s userId = (Inl NotFound, s)) \<and>
   (cart_of_user s userId = Some cart \<longrightarrow>
      (\<exists>s'. clearCart s userId = (Inr (), s') \<and>
         cart_items s' (c_id cart) = [] \<and>
         (\<forall>cid. cid \<noteq> c_id cart \<longrightarrow> cart_items s' cid = cart_items s cid) \<and>
         carts s' = carts s \<and> products s' = products s \<and> orders s' = orders s \<and>
         orderItems s' = orderItems s \<and> addresses s' = addresses s))"
proof (intro conjI impI)
  assume "cart_of_user s userId = None"
  then show "clearCart s userId = (Inl NotFound, s)" by (simp add: clearCart_def)
next
  assume c: "cart_of_user s userId = Some cart"
  let ?s' = "s\<lparr>cartItems := filter (\<lambda>i. ci_cartId i \<noteq> c_id cart) (cartItems s)\<rparr>"
  from c have "clearCart s userId = (Inr (), ?s')" by (simp add: clearCart_def)
  moreover have "cart_items ?s' (c_id cart) = []" by (simp add: cart_items_def)
  moreover have "\<forall>cid. cid \<noteq> c_id cart \<longrightarrow> cart_items ?s' cid = cart_items s cid"
    by (auto simp: cart_items_def intro: filter_cong)
  ultimately show "\<exists>s'. clearCart s userId = (Inr (), s') \<and>
         cart_items s' (c_id cart) = [] \<and>
         (\<forall>cid. cid \<noteq> c_id cart \<longrightarrow> cart_items s' cid = cart_items s cid) \<and>
         carts s' = carts s \<and> products s' = products s \<and> orders s' = orders s \<and>
         orderItems s' = orderItems s \<and> addresses s' = addresses s"
    by (intro exI [of _ ?s']) simp
qed

text \<open>Runs of \<open>clearCart_cases\<close>: a user without a cart, and one with a cart.\<close>

theorem clearCart_cases_witness:
  "cart_of_user shop ''u2'' = None \<and> clearCart shop ''u2'' = (Inl NotFound, shop) \<and>
   cart_of_user shop ''u1'' = Some \<lparr>c_id = ''c1'', c_userId = ''u1''\<rparr> \<and>
   (\<exists>s'. clearCart shop ''u1'' = (Inr (), s') \<and>
         cart_items s' ''c1'' = [] \<and>
         (\<forall>cid. cid \<noteq> ''c1'' \<longrightarrow> cart_items s' cid = cart_items shop cid) \<and>
         carts s' = carts shop \<and> products s' = products shop \<and> orders s' = orders shop \<and>
         orderItems s' = orderItems shop \<and> addresses s' = addresses shop)"
proof -
  have h1: "cart_of_user shop ''u2'' = None" by (simp add: shop_def cart_of_user_def)
  from clearCart_cases [of shop "''u2''"] h1
  have r1: "clearCart shop ''u2'' = (Inl NotFound, shop)" by blast
  from clearCart_cases [of shop "''u1''" "\<lparr>c_id = ''c1'', c_userId = ''u1''\<rparr>"] shop_cart
  have r2: "\<exists>s'. clearCart shop ''u1'' = (Inr (), s') \<and>
         cart_items s' ''c1'' = [] \<and>
         (\<forall>cid. cid \<noteq> ''c1'' \<longrightarrow> cart_items s' cid = cart_items shop cid) \<and>
         carts s' = carts shop \<and> products s' = products shop \<and> orders s' = orders shop \<and>
         orderItems s' = orderItems shop \<and> addresses s' = addresses shop"
    by simp
  from h1 r1 shop_cart r2 show ?thesis by blast
qed

section \<open>Payment confirmation\<close>

lemmas shop_defs2 = shop_defs shop_intent_def shop_intent_cancelled_def shop_revived_def
  shop_failed_def

lemma shop_intent_run:
  "createPaymentIntent shop_after ''u1'' (Some ''o1'') ''pi_1'' = (Inr ''pi_1'', shop_intent)"
  by (simp add: createPaymentIntent_def falsy_def update_order_def shop_defs2)

lemma shop_intent_cancel_run:
  "cancelOrder shop_intent ''u1'' ''o1'' = (Inr (), shop_intent_cancelled)"
  by (simp add: cancelOrder_def transaction_def order_items_def update_order_def shop_defs2)

lemma shop_revive_run:
  "confirmPayment shop_intent_cancelled ''u1'' (Some ''pi_1'') True = (Inr ''o1'', shop_revived)"
  by (simp add: confirmPayment_def falsy_def update_order_def shop_defs2)

text \<open>
  C5, as amended. \<open>confirmPayment\<close> finds the caller's order by its payment intent id
  and answers NotFound when there is none. On payment success it writes payment
  status PAID and status CONFIRMED on that order, whatever its status and payment
  status were (PENDING and UNPAID included); on payment failure it writes payment
  status FAILED and leaves every status as it was. It never answers
  InvalidTransition: no transition is rejected.
\<close>

theorem confirmPayment_cases:
  "(intent \<noteq> [] \<and>
    find (\<lambda>x. o_stripePaymentId x = Some intent \<and> o_userId x = userId) (orders s) = None \<longrightarrow>
      confirmPayment s userId (Some intent) ok = (Inl NotFound, s)) \<and>
   (intent \<noteq> [] \<and>
    find (\<lambda>x. o_stripePaymentId x = Some intent \<and> o_userId x = userId) (orders s) = Some ord \<longrightarrow>
      confirmPayment s userId (Some intent) True =
        (Inr (o_id ord),
         s\<lparr>orders := map (\<lambda>x. if o_id x = o_id ord
                               then x\<lparr>o_paymentStatus := PAID, o_status := CONFIRMED\<rparr> else x)
                          (orders s)\<rparr>) \<and>
      confirmPayment s userId (Some intent) False =
        (Inl PaymentFailed,
         s\<lparr>orders := map (\<lambda>x. if o_id x = o_id ord then x\<lparr>o_paymentStatus := FAILED\<rparr> else x)
                          (orders s)\<rparr>) \<and>
      map o_status (orders (snd (confirmPayment s userId (Some intent) False))) =
        map o_status (orders s)) \<and>
   fst (confirmPayment s userId paymentIntentId ok) \<noteq> Inl InvalidTransition"
proof (intro conjI impI)
  assume "intent \<noteq> [] \<and>
    find (\<lambda>x. o_stripePaymentId x = Some intent \<and> o_userId x = userId) (orders s) = None"
  then show "confirmPayment s userId (Some intent) ok = (Inl NotFound, s)"
    by (simp add: confirmPayment_def falsy_def)
next
  assume a: "intent \<noteq> [] \<and>
    find (\<lambda>x. o_stripePaymentId x = Some intent \<and> o_userId x = userId) (orders s) = Some ord"
  then show "confirmPayment s userId (Some intent) True =
        (Inr (o_id ord),
         s\<lparr>orders := map (\<lambda>x. if o_id x = o_id ord
                               then x\<lparr>o_paymentStatus := PAID, o_status := CONFIRMED\<rparr> else x)
                          (orders s)\<rparr>)"
    by (simp add: confirmPayment_def falsy_def update_order_def)
  from a show f: "confirmPayment s userId (Some intent) False =
        (Inl PaymentFailed,
         s\<lparr>orders := map (\<lambda>x. if o_id x = o_id ord then x\<lparr>o_paymentStatus := FAILED\<rparr> else x)
                          (orders s)\<rparr>)"
    by (simp add: confirmPayment_def falsy_def update_order_def)
  show "map o_status (orders (snd (confirmPayment s userId (Some intent) False))) =
        map o_status (orders s)"
    unfolding f by (simp add: comp_def if_distrib cong: if_cong)
next
  show "fst (confirmPayment s userId paymentIntentId ok) \<noteq> Inl InvalidTransition"
    by (simp add: confirmPayment_def split: option.splits)
qed

text \<open>
  Runs of \<open>confirmPayment_cases\<close> on the pending, unpaid order with an intent:
  another user's call, a successful payment and a failed one.
\<close>

theorem confirmPayment_cases_witness:
  "confirmPayment shop_intent ''u2'' (Some ''pi_1'') True = (Inl NotFound, shop_intent) \<and>
   confirmPayment shop_intent ''u1'' (Some ''pi_1'') True = (Inr ''o1'', shop_paid) \<and>
   confirmPayment shop_intent ''u1'' (Some ''pi_1'') False = (Inl PaymentFailed, shop_failed) \<and>
   map o_status (orders shop_intent) = [PENDING] \<and>
   map o_paymentStatus (orders shop_intent) = [UNPAID] \<and>
   map o_status (orders shop_paid) = [CONFIRMED] \<and>
   map o_paymentStatus (orders shop_paid) = [PAID] \<and>
   map o_status (orders shop_failed) = [PENDING] \<and>
   map o_paymentStatus (orders shop_failed) = [FAILED]"
proof -
  note t = confirmPayment_cases
  let ?ord = "shop_order\<lparr>o_stripePaymentId := Some ''pi_1''\<rparr>"
  have h1: "''pi_1'' \<noteq> [] \<and>
    find (\<lambda>x. o_stripePaymentId x = Some ''pi_1'' \<and> o_userId x = ''u2'') (orders shop_intent) = None"
    by (simp add: shop_defs2)
  have h2: "''pi_1'' \<noteq> [] \<and>
    find (\<lambda>x. o_stripePaymentId x = Some ''pi_1'' \<and> o_userId x = ''u1'') (orders shop_intent) =
      Some ?ord"
    by (simp add: shop_defs2)
  from t [of "''pi_1''" "''u2''" shop_intent True] h1
  have r1: "confirmPayment shop_intent ''u2'' (Some ''pi_1'') True = (Inl NotFound, shop_intent)"
    by blast
  from t [of "''pi_1''" "''u1''" shop_intent _ ?ord] h2
  have r2: "confirmPayment shop_intent ''u1'' (Some ''pi_1'') True = (Inr ''o1'', shop_paid)"
    and r3: "confirmPayment shop_intent ''u1'' (Some ''pi_1'') False = (Inl PaymentFailed, shop_failed)"
    by (simp_all add: shop_defs2)
  from r1 r2 r3 show ?thesis by (simp add: shop_defs2)
qed

text \<open>
  C5 as stated fails: "a CANCELLED order can never become CONFIRMED/PAID". The user
  checks out, asks for a payment intent, cancels the order (its stock is given back)
  and then confirms the payment: the cancelled order becomes CONFIRMED and PAID.
\<close>

theorem confirmPayment_revives_cancelled:
  "createOrder shop ''u1'' shop_body ''o1'' ''ORD-1'' = (Inr (Some shop_order), shop_after) \<and>
   createPaymentIntent shop_after ''u1'' (Some ''o1'') ''pi_1'' = (Inr ''pi_1'', shop_intent) \<and>
   cancelOrder shop_intent ''u1'' ''o1'' = (Inr (), shop_intent_cancelled) \<and>
   map o_status (orders shop_intent_cancelled) = [CANCELLED] \<and>
   confirmPayment shop_intent_cancelled ''u1'' (Some ''pi_1'') True = (Inr ''o1'', shop_revived) \<and>
   map o_status (orders shop_revived) = [CONFIRMED] \<and>
   map o_paymentStatus (orders shop_revived) = [PAID]"
  using shop_run shop_intent_run shop_intent_cancel_run shop_revive_run
  by (simp add: shop_defs2)

section \<open>Two checkouts for the last unit\<close>

















section \<open>The stock never goes below zero\<close>

lemma consistent_cong:
  "products s' = products s \<Longrightarrow> cartItems s' = cartItems s \<Longrightarrow> orderItems s' = orderItems s
     \<Longrightarrow> consistent s' = consistent s"
  by (simp add: consistent_def stock_ok_def rows_ok_def)

lemma consistent_update_order [simp]: "consistent (update_order oid f s) = consistent s"
  by (rule consistent_cong) (simp_all add: update_order_def)

lemma consistent_carts [simp]: "consistent (s\<lparr>carts := c\<rparr>) = consistent s"
  by (rule consistent_cong) simp_all











lemma get_or_create_cart_rows:
  "get_or_create_cart s u nc = (cart, s1) \<Longrightarrow> cartItems s1 = cartItems s"
  by (auto simp: get_or_create_cart_def split: option.splits)















end
